theory Spec2Isabelle
  imports Main
begin

section \<open>js-query-pagination: encoder, decoder and validation\<close>

text \<open>
  A shallow embedding of the TypeScript sources \<^verbatim>\<open>utils.ts\<close> (encoder and validation),
  \<^verbatim>\<open>index.ts\<close> (\<^verbatim>\<open>toQueryString\<close>, \<^verbatim>\<open>fromQueryString\<close>) and \<^verbatim>\<open>builder.ts\<close>
  (\<^verbatim>\<open>PaginateBuilder.filter\<close>).

  Conventions of the embedding:
  \<^item> A JavaScript string is a \<open>string\<close>: the list of the bytes of its UTF-8 form. The
    texts are well formed (no lone surrogates), so \<^verbatim>\<open>encodeURIComponent\<close> never throws,
    and the UTF-8 decoding that \<^verbatim>\<open>URLSearchParams\<close> applies to percent-decoded
    bytes is taken as the identity (ill-formed bytes are not replaced by U+FFFD).
  \<^item> A JavaScript number is \<open>Integer n\<close> when it is a finite double of integral value
    \<open>n\<close> (both zeros are \<open>Integer 0\<close>), and \<open>NonInteger s\<close> otherwise (a fraction,
    \<^verbatim>\<open>NaN\<close>, an infinity), \<open>s\<close> being its rendering by \<^verbatim>\<open>String\<close>. The decimal
    rendering of an integer is the platform's one below \<open>10^21\<close>.
  \<^item> An object is the list of its own properties in the order in which
    \<^verbatim>\<open>Object.entries\<close> enumerates them.
  \<^item> Every \<^verbatim>\<open>throw\<close> is a value \<open>Inl e\<close>. \<open>Error msg\<close> is \<^verbatim>\<open>new Error(msg)\<close>
    of the source, \<open>TypeError\<close> is a type error raised by the runtime (calling a
    missing method, writing a property of a primitive in module code), and
    \<open>OutsideModel\<close> marks the inputs on which the platform's behaviour is not
    determined by this embedding (properties inherited from \<^verbatim>\<open>Object.prototype\<close>
    used as containers, named properties of arrays, numeric strings whose
    value depends on floating-point rounding).
\<close>

subsection \<open>Values\<close>

datatype number = Integer int | NonInteger string

datatype jsval =
    Undefined
  | Null
  | Bool bool
  | Num number
  | Str string
  | Arr "jsval list"
  | Obj "(string \<times> jsval) list"

type_synonym props = "(string \<times> jsval) list"

text \<open>A value that is neither an array nor an object.\<close>

definition is_scalar :: "jsval \<Rightarrow> bool" where
  "is_scalar v = (case v of Arr xs \<Rightarrow> False | Obj fs \<Rightarrow> False | _ \<Rightarrow> True)"

datatype error = Error string | TypeError | OutsideModel

definition NaN :: number where
  "NaN = NonInteger ''NaN''"

subsection \<open>Decimal numerals\<close>

definition digit_char :: "nat \<Rightarrow> char" where
  "digit_char d = ''0123456789'' ! d"

text \<open>The decimal digits of a non-negative integer, and of an integer with its sign.\<close>

function show_digits :: "int \<Rightarrow> string" where
  "show_digits n =
     (if n < 10 then [digit_char (nat n)]
      else show_digits (n div 10) @ [digit_char (nat (n mod 10))])"
  by pat_completeness auto
termination
  by (relation "measure nat") auto

declare show_digits.simps [simp del]

definition show_int :: "int \<Rightarrow> string" where
  "show_int i = (if i < 0 then CHR ''-'' # show_digits (- i) else show_digits i)"

definition is_digit :: "char \<Rightarrow> bool" where
  "is_digit c = (c \<in> set ''0123456789'')"

definition digit_val :: "char \<Rightarrow> int" where
  "digit_val c = of_char c - 48"

definition digits_value :: "string \<Rightarrow> int" where
  "digits_value ds = foldl (\<lambda>a c. 10 * a + digit_val c) 0 ds"

subsection \<open>The platform's conversions: \<^verbatim>\<open>String\<close>, truthiness, \<^verbatim>\<open>Number\<close>\<close>

text \<open>
  \<^verbatim>\<open>String(value)\<close>. An array is rendered by \<^verbatim>\<open>join(",")\<close>, where \<^verbatim>\<open>null\<close> and
  \<^verbatim>\<open>undefined\<close> elements give the empty string; a plain object is
  \<^verbatim>\<open>[object Object]\<close>.
\<close>

fun ToString :: "jsval \<Rightarrow> string"
and join_elements :: "jsval list \<Rightarrow> string" where
  "ToString Undefined = ''undefined''"
| "ToString Null = ''null''"
| "ToString (Bool b) = (if b then ''true'' else ''false'')"
| "ToString (Num (Integer i)) = show_int i"
| "ToString (Num (NonInteger s)) = s"
| "ToString (Str s) = s"
| "ToString (Arr xs) = join_elements xs"
| "ToString (Obj fs) = ''[object Object]''"
| "join_elements [] = ''''"
| "join_elements (x # xs) =
     (case x of Undefined \<Rightarrow> '''' | Null \<Rightarrow> '''' | _ \<Rightarrow> ToString x)
       @ (if xs = [] then '''' else CHR '','' # join_elements xs)"

text \<open>JavaScript truthiness, as tested by \<^verbatim>\<open>!x\<close> and \<^verbatim>\<open>x || y\<close>.\<close>

fun truthy :: "jsval \<Rightarrow> bool" where
  "truthy Undefined = False"
| "truthy Null = False"
| "truthy (Bool b) = b"
| "truthy (Num (Integer i)) = (i \<noteq> 0)"
| "truthy (Num (NonInteger s)) = (s \<noteq> ''NaN'')"
| "truthy (Str s) = (s \<noteq> '''')"
| "truthy (Arr xs) = True"
| "truthy (Obj fs) = True"

text \<open>
  \<^verbatim>\<open>Number(value)\<close>. On strings the embedding decides the empty string (zero), an
  optionally signed run of decimal digits (that integer), and a string with a visible
  ASCII character that no numeric literal contains (\<^verbatim>\<open>NaN\<close>); the value of any other
  string (white space, fractions, exponents, radix prefixes, \<^verbatim>\<open>Infinity\<close>) is left
  undetermined: \<open>None\<close>.
\<close>

definition is_int_literal :: "string \<Rightarrow> bool" where
  "is_int_literal s =
     (case s of
        [] \<Rightarrow> False
      | c # r \<Rightarrow>
          if c = CHR ''+'' \<or> c = CHR ''-'' then r \<noteq> [] \<and> list_all is_digit r
          else list_all is_digit s)"

definition int_literal_value :: "string \<Rightarrow> int" where
  "int_literal_value s =
     (case s of
        [] \<Rightarrow> 0
      | c # r \<Rightarrow>
          if c = CHR ''-'' then - digits_value r
          else if c = CHR ''+'' then digits_value r
          else digits_value s)"

definition numeric_alphabet :: "char list" where
  "numeric_alphabet = ''0123456789abcdefABCDEFxXoO.+-Infinty''"

definition surely_not_numeric :: "string \<Rightarrow> bool" where
  "surely_not_numeric s =
     list_ex (\<lambda>c. 33 \<le> (of_char c :: nat) \<and> (of_char c :: nat) \<le> 126 \<and> c \<notin> set numeric_alphabet) s"

definition StringToNumber :: "string \<Rightarrow> number option" where
  "StringToNumber s =
     (if s = [] then Some (Integer 0)
      else if is_int_literal s then Some (Integer (int_literal_value s))
      else if surely_not_numeric s then Some NaN
      else None)"

fun ToNumber :: "jsval \<Rightarrow> number option" where
  "ToNumber Undefined = Some NaN"
| "ToNumber Null = Some (Integer 0)"
| "ToNumber (Bool b) = Some (Integer (if b then 1 else 0))"
| "ToNumber (Num n) = Some n"
| "ToNumber (Str s) = StringToNumber s"
| "ToNumber (Arr xs) = StringToNumber (ToString (Arr xs))"
| "ToNumber (Obj fs) = Some NaN"

text \<open>\<^verbatim>\<open>Number.isInteger(x)\<close> and \<^verbatim>\<open>x < 1\<close>; the latter is only read on integers.\<close>

fun isInteger :: "number \<Rightarrow> bool" where
  "isInteger (Integer i) = True"
| "isInteger (NonInteger s) = False"

fun less_than_one :: "number \<Rightarrow> bool" where
  "less_than_one (Integer i) = (i < 1)"
| "less_than_one (NonInteger s) = False"

subsection \<open>\<^verbatim>\<open>encodeURIComponent\<close>\<close>

definition unreserved :: "char \<Rightarrow> bool" where
  "unreserved c =
     (c \<in> set ''ABCDEFGHIJKLMNOPQRSTUVWXYZabcdefghijklmnopqrstuvwxyz0123456789-_.!~*'' \<or>
      c = CHR 0x27 \<or> c = CHR ''('' \<or> c = CHR '')'')"

definition hex_upper :: "nat \<Rightarrow> char" where
  "hex_upper d = ''0123456789ABCDEF'' ! d"

definition percent_encode_char :: "char \<Rightarrow> string" where
  "percent_encode_char c =
     (if unreserved c then [c]
      else [CHR ''%'', hex_upper (of_char c div 16), hex_upper (of_char c mod 16)])"

definition encodeURIComponent :: "string \<Rightarrow> string" where
  "encodeURIComponent s = concat (map percent_encode_char s)"

subsection \<open>Builder options (\<^verbatim>\<open>types.ts\<close>, \<^verbatim>\<open>utils.ts\<close>)\<close>

text \<open>
  Every field of \<^verbatim>\<open>BuilderOptions\<close> is optional; \<open>None\<close> is a field that reads
  \<^verbatim>\<open>undefined\<close>.
\<close>

datatype arrayFormat = Brackets | Indices | Comma | Separator | Repeat

record BuilderOptions =
  encodeValues :: "bool option"
  arrayFormat :: "arrayFormat option"
  arraySeparator :: "string option"
  skipNulls :: "bool option"
  skipEmptyString :: "bool option"

definition DEFAULT_OPTIONS :: BuilderOptions where
  "DEFAULT_OPTIONS =
     \<lparr> encodeValues = Some True,
       arrayFormat = Some Repeat,
       arraySeparator = Some '','',
       skipNulls = Some True,
       skipEmptyString = Some True \<rparr>"

text \<open>
  \<^verbatim>\<open>Partial<BuilderOptions>\<close>, the argument of the public entry points: a field is
  absent (\<open>None\<close>), or present with a value that may be \<^verbatim>\<open>undefined\<close>
  (\<open>Some None\<close>). \<open>spread_options d p\<close> is \<^verbatim>\<open>{ ...d, ...p }\<close>.
\<close>

record PartialOptions =
  p_encodeValues :: "bool option option"
  p_arrayFormat :: "arrayFormat option option"
  p_arraySeparator :: "string option option"
  p_skipNulls :: "bool option option"
  p_skipEmptyString :: "bool option option"

definition spread_field :: "'a option \<Rightarrow> 'a option option \<Rightarrow> 'a option" where
  "spread_field d p = (case p of None \<Rightarrow> d | Some x \<Rightarrow> x)"

definition spread_options :: "BuilderOptions \<Rightarrow> PartialOptions \<Rightarrow> BuilderOptions" where
  "spread_options d p =
     \<lparr> encodeValues = spread_field (encodeValues d) (p_encodeValues p),
       arrayFormat = spread_field (arrayFormat d) (p_arrayFormat p),
       arraySeparator = spread_field (arraySeparator d) (p_arraySeparator p),
       skipNulls = spread_field (skipNulls d) (p_skipNulls p),
       skipEmptyString = spread_field (skipEmptyString d) (p_skipEmptyString p) \<rparr>"

definition no_options :: PartialOptions where
  "no_options =
     \<lparr> p_encodeValues = None, p_arrayFormat = None, p_arraySeparator = None,
       p_skipNulls = None, p_skipEmptyString = None \<rparr>"

subsection \<open>The encoder (\<^verbatim>\<open>utils.ts\<close>)\<close>

text \<open>
  \<^verbatim>\<open>encodeValue(value, encode = true)\<close>: the default of the second parameter applies
  when \<^verbatim>\<open>undefined\<close> is passed.
\<close>

definition encodeValue :: "jsval \<Rightarrow> bool option \<Rightarrow> string" where
  "encodeValue val encode =
     (let stringValue = ToString val
      in if (case encode of None \<Rightarrow> True | Some b \<Rightarrow> b)
         then encodeURIComponent stringValue else stringValue)"

definition shouldSkipValue :: "jsval \<Rightarrow> BuilderOptions \<Rightarrow> bool" where
  "shouldSkipValue val options =
     (if skipNulls options = Some True \<and> (val = Null \<or> val = Undefined) then True
      else if skipEmptyString options = Some True \<and> val = Str '''' then True
      else False)"

text \<open>\<^verbatim>\<open>xs.join(sep)\<close> on strings.\<close>

fun join :: "string \<Rightarrow> string list \<Rightarrow> string" where
  "join sep [] = ''''"
| "join sep [x] = x"
| "join sep (x # y # ys) = x @ sep @ join sep (y # ys)"

definition formatArrayValue :: "string \<Rightarrow> jsval list \<Rightarrow> BuilderOptions \<Rightarrow> string list" where
  "formatArrayValue key vals options =
     (let enc = encodeValues options in
      case arrayFormat options of
        Some Brackets \<Rightarrow>
          map (\<lambda>v. encodeValue (Str key) enc @ ''[]='' @ encodeValue v enc) vals
      | Some Indices \<Rightarrow>
          map (\<lambda>(v, index). encodeValue (Str key) enc @ ''['' @ show_digits (int index) @ '']=''
                              @ encodeValue v enc)
              (zip vals [0 ..< length vals])
      | Some Comma \<Rightarrow>
          (let joinedValues = join '','' (map (\<lambda>v. encodeValue v enc) vals)
           in [encodeValue (Str key) enc @ ''='' @ joinedValues])
      | Some Separator \<Rightarrow>
          (let separator = (case arraySeparator options of None \<Rightarrow> '','' | Some s \<Rightarrow> s);
               joinedValues = join separator (map (\<lambda>v. encodeValue v enc) vals)
           in [encodeValue (Str key) enc @ ''='' @ joinedValues])
      | _ \<Rightarrow>
          map (\<lambda>v. encodeValue (Str key) enc @ ''='' @ encodeValue v enc) vals)"

definition camelToSnakeCase :: "string \<Rightarrow> string" where
  "camelToSnakeCase str = (if str = ''searchFields'' then ''search_fields'' else str)"

text \<open>The tokens of one field of a nested object, under the flattened key.\<close>

definition nested_params :: "BuilderOptions \<Rightarrow> string \<Rightarrow> string \<times> jsval \<Rightarrow> string list" where
  "nested_params options queryKey nested =
     (case nested of (nestedKey, nestedValue) \<Rightarrow>
        if \<not> shouldSkipValue nestedValue options then
          (let flatKey = queryKey @ ''['' @ nestedKey @ '']''
           in case nestedValue of
                Arr vs \<Rightarrow> formatArrayValue flatKey vs options
              | _ \<Rightarrow> [encodeValue (Str flatKey) (encodeValues options) @ ''=''
                        @ encodeValue nestedValue (encodeValues options)])
        else [])"

text \<open>The tokens of one top-level entry: the body of the loop of \<^verbatim>\<open>objectToQueryParams\<close>.\<close>

definition entry_params :: "BuilderOptions \<Rightarrow> string \<times> jsval \<Rightarrow> string list" where
  "entry_params options entry =
     (case entry of (key, val) \<Rightarrow>
        if shouldSkipValue val options then []
        else
          (let queryKey = camelToSnakeCase key
           in case val of
                Arr vs \<Rightarrow> if length vs > 0 then formatArrayValue queryKey vs options else []
              | Obj fs \<Rightarrow> concat (map (nested_params options queryKey) fs)
              | _ \<Rightarrow> [encodeValue (Str queryKey) (encodeValues options) @ ''=''
                        @ encodeValue val (encodeValues options)]))"

definition objectToQueryParams :: "props \<Rightarrow> BuilderOptions \<Rightarrow> string list" where
  "objectToQueryParams obj options = concat (map (entry_params options) obj)"

definition buildQueryString :: "props \<Rightarrow> BuilderOptions \<Rightarrow> string" where
  "buildQueryString params options =
     (let queryParams = objectToQueryParams params options
      in if length queryParams > 0 then join ''&'' queryParams else '''')"

subsection \<open>Validation (\<^verbatim>\<open>utils.ts\<close>)\<close>

text \<open>
  One of the two checks of \<^verbatim>\<open>validatePaginationParams\<close>: \<open>field\<close> is what
  \<^verbatim>\<open>params.page\<close> (or \<^verbatim>\<open>params.limit\<close>) reads, \<open>None\<close> for a missing property.
\<close>

definition check_positive_integer :: "jsval option \<Rightarrow> string \<Rightarrow> error + unit" where
  "check_positive_integer field message =
     (case field of
        None \<Rightarrow> Inr ()
      | Some Undefined \<Rightarrow> Inr ()
      | Some v \<Rightarrow>
          (case ToNumber v of
             None \<Rightarrow> Inl OutsideModel
           | Some n \<Rightarrow>
               if \<not> isInteger n \<or> less_than_one n then Inl (Error message) else Inr ()))"

definition validatePaginationParams :: "props \<Rightarrow> error + unit" where
  "validatePaginationParams params =
     (case check_positive_integer (map_of params ''page'') ''Page must be a positive integer'' of
        Inl e \<Rightarrow> Inl e
      | Inr u \<Rightarrow>
          check_positive_integer (map_of params ''limit'') ''Limit must be a positive integer'')"

subsection \<open>\<^verbatim>\<open>toQueryString\<close> (\<^verbatim>\<open>index.ts\<close>)\<close>

definition toQueryString :: "props \<Rightarrow> PartialOptions \<Rightarrow> error + string" where
  "toQueryString params options =
     (let mergedOptions = spread_options DEFAULT_OPTIONS options
      in case validatePaginationParams params of
           Inl e \<Rightarrow> Inl e
         | Inr u \<Rightarrow> Inr (buildQueryString params mergedOptions))"

section \<open>The decoder (\<^verbatim>\<open>index.ts\<close>)\<close>

subsection \<open>\<^verbatim>\<open>URLSearchParams\<close>: the form-urlencoded parser of the platform\<close>

definition hex_val :: "char \<Rightarrow> nat option" where
  "hex_val c =
     (let n = (of_char c :: nat)
      in if 48 \<le> n \<and> n \<le> 57 then Some (n - 48)
         else if 65 \<le> n \<and> n \<le> 70 then Some (n - 55)
         else if 97 \<le> n \<and> n \<le> 102 then Some (n - 87)
         else None)"

fun percent_decode :: "string \<Rightarrow> string" where
  "percent_decode [] = []"
| "percent_decode (c # cs) =
     (if c = CHR ''%'' then
        (case cs of
           h # l # rest \<Rightarrow>
             (case (hex_val h, hex_val l) of
                (Some a, Some b) \<Rightarrow> char_of (16 * a + b) # percent_decode rest
              | _ \<Rightarrow> c # percent_decode cs)
         | _ \<Rightarrow> c # percent_decode cs)
      else c # percent_decode cs)"

text \<open>\<^verbatim>\<open>s.split(d)\<close> for a one-character delimiter: always at least one piece.\<close>

fun split_on :: "char \<Rightarrow> string \<Rightarrow> string list" where
  "split_on d [] = [[]]"
| "split_on d (c # cs) =
     (if c = d then [] # split_on d cs
      else (case split_on d cs of [] \<Rightarrow> [[c]] | s # ss \<Rightarrow> (c # s) # ss))"

definition decode_component :: "string \<Rightarrow> string" where
  "decode_component s = percent_decode (map (\<lambda>c. if c = CHR ''+'' then CHR '' '' else c) s)"

definition name_value :: "string \<Rightarrow> string \<times> string" where
  "name_value seq =
     (let name = takeWhile (\<lambda>c. c \<noteq> CHR ''='') seq;
          rest = dropWhile (\<lambda>c. c \<noteq> CHR ''='') seq
      in (decode_component name, decode_component (case rest of [] \<Rightarrow> [] | e # v \<Rightarrow> v)))"

text \<open>
  \<^verbatim>\<open>new URLSearchParams(init).entries()\<close>: a leading \<^verbatim>\<open>?\<close> is dropped, the string is
  split at \<^verbatim>\<open>&\<close>, empty pieces are skipped, each piece is split at its first \<^verbatim>\<open>=\<close>,
  and in both halves \<^verbatim>\<open>+\<close> becomes a space before percent-decoding.
\<close>

definition urlSearchParams :: "string \<Rightarrow> (string \<times> string) list" where
  "urlSearchParams init =
     (let s = (case init of [] \<Rightarrow> [] | c # r \<Rightarrow> if c = CHR ''?'' then r else init)
      in map name_value (filter (\<lambda>seq. seq \<noteq> []) (split_on CHR ''&'' s)))"

subsection \<open>Reading and writing properties of a plain object\<close>

text \<open>
  The names every object inherits from \<^verbatim>\<open>Object.prototype\<close>: reading one of them on
  an object without such an own property gives a function (for \<^verbatim>\<open>__proto__\<close> the
  prototype itself), which is truthy, is no array and has no \<^verbatim>\<open>push\<close>.
\<close>

definition object_prototype_properties :: "string list" where
  "object_prototype_properties =
     [''constructor'', ''__defineGetter__'', ''__defineSetter__'', ''hasOwnProperty'',
      ''__lookupGetter__'', ''__lookupSetter__'', ''isPrototypeOf'', ''propertyIsEnumerable'',
      ''toString'', ''valueOf'', ''__proto__'', ''toLocaleString'']"

datatype lookup = Absent | Own jsval | Inherited

definition get_prop :: "props \<Rightarrow> string \<Rightarrow> lookup" where
  "get_prop ps k =
     (case map_of ps k of
        Some v \<Rightarrow> Own v
      | None \<Rightarrow> if k \<in> set object_prototype_properties then Inherited else Absent)"

text \<open>
  Own properties are enumerated with the array indices first, in ascending order, then
  the other names in the order of their creation. An array index is the canonical
  decimal numeral of an integer up to \<open>2^32 - 2\<close>.
\<close>

definition array_index :: "string \<Rightarrow> int option" where
  "array_index k =
     (if k \<noteq> [] \<and> list_all is_digit k \<and> (k = ''0'' \<or> hd k \<noteq> CHR ''0'')
         \<and> digits_value k \<le> 4294967294
      then Some (digits_value k) else None)"

definition precedes :: "string \<Rightarrow> string \<Rightarrow> bool" where
  "precedes k k' =
     (case array_index k of
        None \<Rightarrow> False
      | Some i \<Rightarrow> (case array_index k' of None \<Rightarrow> True | Some j \<Rightarrow> i < j))"

fun insert_prop :: "string \<Rightarrow> jsval \<Rightarrow> props \<Rightarrow> props" where
  "insert_prop k v [] = [(k, v)]"
| "insert_prop k v ((k', v') # ps) =
     (if precedes k k' then (k, v) # (k', v') # ps else (k', v') # insert_prop k v ps)"

fun update_prop :: "string \<Rightarrow> jsval \<Rightarrow> props \<Rightarrow> props" where
  "update_prop k v [] = []"
| "update_prop k v ((k', v') # ps) =
     (if k' = k then (k, v) # ps else (k', v') # update_prop k v ps)"

text \<open>Defining or overwriting the own property \<open>k\<close>.\<close>

definition set_prop :: "props \<Rightarrow> string \<Rightarrow> jsval \<Rightarrow> props" where
  "set_prop ps k v = (if map_of ps k = None then insert_prop k v ps else update_prop k v ps)"

text \<open>
  The assignment \<^verbatim>\<open>obj[k] = v\<close> on a plain object. The name \<^verbatim>\<open>__proto__\<close> is an
  accessor: assigning a primitive other than \<^verbatim>\<open>null\<close> to it does nothing, assigning
  an object or \<^verbatim>\<open>null\<close> replaces the prototype, which this embedding does not follow.
\<close>

definition assign :: "props \<Rightarrow> string \<Rightarrow> jsval \<Rightarrow> error + props" where
  "assign ps k v =
     (if k = ''__proto__'' then (if is_scalar v \<and> v \<noteq> Null then Inr ps else Inl OutsideModel)
      else Inr (set_prop ps k v))"

subsection \<open>\<^verbatim>\<open>parseInt(value, 10)\<close>\<close>

text \<open>
  The white space that \<^verbatim>\<open>parseInt\<close> skips, as UTF-8: the ASCII controls and the space,
  U+00A0, U+1680, U+2000 to U+200A, U+2028, U+2029, U+202F, U+205F, U+3000, U+FEFF.
\<close>

definition white_space :: "string list" where
  "white_space =
     [[CHR 0x09], [CHR 0x0A], [CHR 0x0B], [CHR 0x0C], [CHR 0x0D], [CHR 0x20],
      [CHR 0xC2, CHR 0xA0], [CHR 0xE1, CHR 0x9A, CHR 0x80],
      [CHR 0xE2, CHR 0x80, CHR 0x80], [CHR 0xE2, CHR 0x80, CHR 0x81],
      [CHR 0xE2, CHR 0x80, CHR 0x82], [CHR 0xE2, CHR 0x80, CHR 0x83],
      [CHR 0xE2, CHR 0x80, CHR 0x84], [CHR 0xE2, CHR 0x80, CHR 0x85],
      [CHR 0xE2, CHR 0x80, CHR 0x86], [CHR 0xE2, CHR 0x80, CHR 0x87],
      [CHR 0xE2, CHR 0x80, CHR 0x88], [CHR 0xE2, CHR 0x80, CHR 0x89],
      [CHR 0xE2, CHR 0x80, CHR 0x8A], [CHR 0xE2, CHR 0x80, CHR 0xA8],
      [CHR 0xE2, CHR 0x80, CHR 0xA9], [CHR 0xE2, CHR 0x80, CHR 0xAF],
      [CHR 0xE2, CHR 0x81, CHR 0x9F], [CHR 0xE3, CHR 0x80, CHR 0x80],
      [CHR 0xEF, CHR 0xBB, CHR 0xBF]]"

definition white_space_length :: "string \<Rightarrow> nat" where
  "white_space_length s =
     (case find (\<lambda>w. take (length w) s = w) white_space of None \<Rightarrow> 0 | Some w \<Rightarrow> length w)"

fun strip_white_space :: "nat \<Rightarrow> string \<Rightarrow> string" where
  "strip_white_space 0 s = s"
| "strip_white_space (Suc fuel) s =
     (if white_space_length s = 0 then s
      else strip_white_space fuel (drop (white_space_length s) s))"

text \<open>
  \<^verbatim>\<open>parseInt(value, 10)\<close>: leading white space is skipped (the length of the string
  bounds the number of steps), a sign is read, then the longest run of decimal digits;
  without a digit the result is \<^verbatim>\<open>NaN\<close>. Beyond \<open>2^53\<close> the platform rounds the
  integer to a double, which is again an integer of the same sign.
\<close>

definition parseInt :: "string \<Rightarrow> number" where
  "parseInt s =
     (let t = strip_white_space (length s) s;
          negative = (t \<noteq> [] \<and> hd t = CHR ''-'');
          r = (if t \<noteq> [] \<and> (hd t = CHR ''-'' \<or> hd t = CHR ''+'') then tl t else t);
          ds = takeWhile is_digit r
      in if ds = [] then NaN
         else Integer (if negative then - digits_value ds else digits_value ds))"

subsection \<open>The shapes of a key\<close>

text \<open>
  The prefix \<^verbatim>\<open>^([^\[]+)\[\<close> shared by the three patterns: the longest run without
  \<^verbatim>\<open>[\<close>, not empty and followed by \<^verbatim>\<open>[\<close>; the result is that run and what follows the
  bracket.
\<close>

definition split_base :: "string \<Rightarrow> (string \<times> string) option" where
  "split_base key =
     (let base = takeWhile (\<lambda>c. c \<noteq> CHR ''['') key;
          rest = dropWhile (\<lambda>c. c \<noteq> CHR ''['') key
      in if base = [] \<or> rest = [] then None else Some (base, tl rest))"

text \<open>\<^verbatim>\<open>key.match(/^([^\[]+)\[(\d+)\]$/)\<close>: the base key and the index.\<close>

definition indexMatch :: "string \<Rightarrow> (string \<times> string) option" where
  "indexMatch key =
     (case split_base key of
        None \<Rightarrow> None
      | Some (base, r) \<Rightarrow>
          if takeWhile is_digit r \<noteq> [] \<and> dropWhile is_digit r = '']''
          then Some (base, takeWhile is_digit r) else None)"

text \<open>\<^verbatim>\<open>key.match(/^([^\[]+)\[([^\]]+)\]\[\]$/)\<close>: the base key and the nested key.\<close>

definition nestedArrayMatch :: "string \<Rightarrow> (string \<times> string) option" where
  "nestedArrayMatch key =
     (case split_base key of
        None \<Rightarrow> None
      | Some (base, r) \<Rightarrow>
          if takeWhile (\<lambda>c. c \<noteq> CHR '']'') r \<noteq> [] \<and> dropWhile (\<lambda>c. c \<noteq> CHR '']'') r = ''][]''
          then Some (base, takeWhile (\<lambda>c. c \<noteq> CHR '']'') r) else None)"

text \<open>\<^verbatim>\<open>key.match(/^([^\[]+)\[([^\]]+)\]$/)\<close>.\<close>

definition nestedObjectMatch :: "string \<Rightarrow> (string \<times> string) option" where
  "nestedObjectMatch key =
     (case split_base key of
        None \<Rightarrow> None
      | Some (base, r) \<Rightarrow>
          if takeWhile (\<lambda>c. c \<noteq> CHR '']'') r \<noteq> [] \<and> dropWhile (\<lambda>c. c \<noteq> CHR '']'') r = '']''
          then Some (base, takeWhile (\<lambda>c. c \<noteq> CHR '']'') r) else None)"

definition endsWith :: "string \<Rightarrow> string \<Rightarrow> bool" where
  "endsWith s suffix = (length suffix \<le> length s \<and> drop (length s - length suffix) s = suffix)"

subsection \<open>The steps of \<^verbatim>\<open>fromQueryString\<close>\<close>

text \<open>
  \<^verbatim>\<open>if (!params[k]) { params[k] = []; }  params[k].push(value);\<close>
  A truthy value that is no array has no callable \<^verbatim>\<open>push\<close>: the call throws.
\<close>

definition push_value :: "props \<Rightarrow> string \<Rightarrow> string \<Rightarrow> error + props" where
  "push_value params k val =
     (case get_prop params k of
        Absent \<Rightarrow> Inr (set_prop params k (Arr [Str val]))
      | Inherited \<Rightarrow> Inl TypeError
      | Own x \<Rightarrow>
          if \<not> truthy x then Inr (set_prop params k (Arr [Str val]))
          else (case x of
                  Arr xs \<Rightarrow> Inr (set_prop params k (Arr (xs @ [Str val])))
                | _ \<Rightarrow> Inl TypeError))"

text \<open>
  \<^verbatim>\<open>if (!params[baseKey]) { params[baseKey] = {}; }\<close> followed by an operation \<open>f\<close> on
  the value of \<^verbatim>\<open>params[baseKey]\<close>, which is mutated in place.
\<close>

definition with_container ::
  "props \<Rightarrow> string \<Rightarrow> (jsval \<Rightarrow> error + jsval) \<Rightarrow> error + props" where
  "with_container params baseKey f =
     (case get_prop params baseKey of
        Inherited \<Rightarrow> Inl OutsideModel
      | found \<Rightarrow>
          (case f (case found of Own x \<Rightarrow> if truthy x then x else Obj [] | _ \<Rightarrow> Obj []) of
             Inl e \<Rightarrow> Inl e
           | Inr c \<Rightarrow> Inr (set_prop params baseKey c)))"

text \<open>
  \<^verbatim>\<open>if (!c[nestedKey]) { c[nestedKey] = []; }  c[nestedKey].push(value);\<close>
  On a truthy primitive \<open>c\<close> either the assignment or the call throws.
\<close>

definition nested_push :: "string \<Rightarrow> string \<Rightarrow> jsval \<Rightarrow> error + jsval" where
  "nested_push nestedKey val c =
     (case c of
        Obj fs \<Rightarrow> (case push_value fs nestedKey val of Inl e \<Rightarrow> Inl e | Inr fs' \<Rightarrow> Inr (Obj fs'))
      | Arr xs \<Rightarrow> Inl OutsideModel
      | _ \<Rightarrow> Inl TypeError)"

text \<open>
  The branch of \<^verbatim>\<open>nestedObjectMatch\<close>: an unset field takes the value, a field holding
  an array is appended to, any other field becomes the pair of the old and the new value.
  Writing a property of a primitive throws in module code.
\<close>

definition nested_assign :: "string \<Rightarrow> string \<Rightarrow> jsval \<Rightarrow> error + jsval" where
  "nested_assign nestedKey val c =
     (case c of
        Obj fs \<Rightarrow>
          (case get_prop fs nestedKey of
             Absent \<Rightarrow> Inr (Obj (set_prop fs nestedKey (Str val)))
           | Inherited \<Rightarrow> Inl OutsideModel
           | Own existingValue \<Rightarrow>
               if existingValue \<noteq> Undefined then
                 (case existingValue of
                    Arr xs \<Rightarrow> Inr (Obj (set_prop fs nestedKey (Arr (xs @ [Str val]))))
                  | _ \<Rightarrow> Inr (Obj (set_prop fs nestedKey (Arr [existingValue, Str val]))))
               else Inr (Obj (set_prop fs nestedKey (Str val))))
      | Arr xs \<Rightarrow> Inl OutsideModel
      | _ \<Rightarrow> Inl TypeError)"

text \<open>The body of the loop over \<^verbatim>\<open>urlParams.entries()\<close>.\<close>

definition decode_entry :: "props \<Rightarrow> string \<times> string \<Rightarrow> error + props" where
  "decode_entry params entry =
     (case entry of (key, val) \<Rightarrow>
        if CHR ''['' \<in> set key \<and> CHR '']'' \<in> set key then
          (case indexMatch key of
             Some (baseKey, index) \<Rightarrow> push_value params baseKey val
           | None \<Rightarrow>
               (case nestedArrayMatch key of
                  Some (baseKey, nestedKey) \<Rightarrow>
                    with_container params baseKey (nested_push nestedKey val)
                | None \<Rightarrow>
                    (case nestedObjectMatch key of
                       Some (baseKey, nestedKey) \<Rightarrow>
                         with_container params baseKey (nested_assign nestedKey val)
                     | None \<Rightarrow>
                         if endsWith key ''[]''
                         then push_value params (take (length key - 2) key) val
                         else Inr params)))
        else if key = ''page'' \<or> key = ''limit'' then
          Inr (set_prop params key (Num (parseInt val)))
        else if key = ''vacuum'' then
          Inr (set_prop params key (Bool (val = ''true'')))
        else if key = ''sort'' \<or> key = ''searchFields'' then
          push_value params key val
        else assign params key (Str val))"

fun decode_entries :: "props \<Rightarrow> (string \<times> string) list \<Rightarrow> error + props" where
  "decode_entries params [] = Inr params"
| "decode_entries params (entry # entries) =
     (case decode_entry params entry of
        Inl e \<Rightarrow> Inl e
      | Inr params' \<Rightarrow> decode_entries params' entries)"

text \<open>The loop from the empty model, then the validation of the result.\<close>

definition from_entries :: "(string \<times> string) list \<Rightarrow> error + props" where
  "from_entries entries =
     (case decode_entries [] entries of
        Inl e \<Rightarrow> Inl e
      | Inr params \<Rightarrow>
          (case validatePaginationParams params of
             Inl e \<Rightarrow> Inl e
           | Inr u \<Rightarrow> Inr params))"

definition fromQueryString :: "string \<Rightarrow> error + props" where
  "fromQueryString queryString = from_entries (urlSearchParams queryString)"

section \<open>The builder (\<^verbatim>\<open>builder.ts\<close>)\<close>

record PaginateBuilder =
  b_params :: props
  b_options :: BuilderOptions
  b_baseUrl :: string

text \<open>
  \<^verbatim>\<open>if (!this.params.op) this.params.op = {};  this.params.op[field] = value;\<close>
  the body shared by \<^verbatim>\<open>like\<close>, \<^verbatim>\<open>equals\<close> and the four comparisons.
\<close>

definition set_field :: "string \<Rightarrow> jsval \<Rightarrow> jsval \<Rightarrow> error + jsval" where
  "set_field field val c =
     (case c of
        Obj fs \<Rightarrow> (case assign fs field val of Inl e \<Rightarrow> Inl e | Inr fs' \<Rightarrow> Inr (Obj fs'))
      | Arr xs \<Rightarrow> Inl OutsideModel
      | _ \<Rightarrow> Inl TypeError)"

definition stage_single :: "string \<Rightarrow> PaginateBuilder \<Rightarrow> string \<Rightarrow> jsval \<Rightarrow> error + PaginateBuilder" where
  "stage_single op b field val =
     (case with_container (b_params b) op (set_field field val) of
        Inl e \<Rightarrow> Inl e
      | Inr ps \<Rightarrow> Inr (b\<lparr>b_params := ps\<rparr>))"

definition like :: "PaginateBuilder \<Rightarrow> string \<Rightarrow> jsval \<Rightarrow> error + PaginateBuilder" where
  "like b field val = stage_single ''like'' b field val"

definition equals :: "PaginateBuilder \<Rightarrow> string \<Rightarrow> jsval \<Rightarrow> error + PaginateBuilder" where
  "equals b field val = stage_single ''eq'' b field val"

definition greaterThanOrEqual :: "PaginateBuilder \<Rightarrow> string \<Rightarrow> jsval \<Rightarrow> error + PaginateBuilder" where
  "greaterThanOrEqual b field val = stage_single ''gte'' b field val"

definition greaterThan :: "PaginateBuilder \<Rightarrow> string \<Rightarrow> jsval \<Rightarrow> error + PaginateBuilder" where
  "greaterThan b field val = stage_single ''gt'' b field val"

definition lessThanOrEqual :: "PaginateBuilder \<Rightarrow> string \<Rightarrow> jsval \<Rightarrow> error + PaginateBuilder" where
  "lessThanOrEqual b field val = stage_single ''lte'' b field val"

definition lessThan :: "PaginateBuilder \<Rightarrow> string \<Rightarrow> jsval \<Rightarrow> error + PaginateBuilder" where
  "lessThan b field val = stage_single ''lt'' b field val"

text \<open>
  \<^verbatim>\<open>[...(existing || []), ...values]\<close>: a falsy value spreads as nothing, an array as
  its elements; a string would spread into its characters (not followed here); any other
  value is not iterable.
\<close>

definition spread_existing :: "lookup \<Rightarrow> error + jsval list" where
  "spread_existing found =
     (case found of
        Absent \<Rightarrow> Inr []
      | Inherited \<Rightarrow> Inl TypeError
      | Own x \<Rightarrow>
          if \<not> truthy x then Inr []
          else (case x of Arr xs \<Rightarrow> Inr xs | Str s \<Rightarrow> Inl OutsideModel | _ \<Rightarrow> Inl TypeError))"

text \<open>\<^verbatim>\<open>c[field] = [...(c[field] || []), ...values]\<close>\<close>

definition append_field :: "string \<Rightarrow> jsval list \<Rightarrow> jsval \<Rightarrow> error + jsval" where
  "append_field field vals c =
     (case c of
        Obj fs \<Rightarrow>
          (case spread_existing (get_prop fs field) of
             Inl e \<Rightarrow> Inl e
           | Inr xs \<Rightarrow>
               (case assign fs field (Arr (xs @ vals)) of
                  Inl e \<Rightarrow> Inl e
                | Inr fs' \<Rightarrow> Inr (Obj fs')))
      | Arr xs \<Rightarrow> Inl OutsideModel
      | _ \<Rightarrow> Inl TypeError)"

definition stage_multi ::
  "string \<Rightarrow> PaginateBuilder \<Rightarrow> string \<Rightarrow> jsval list \<Rightarrow> error + PaginateBuilder" where
  "stage_multi op b field vals =
     (case with_container (b_params b) op (append_field field vals) of
        Inl e \<Rightarrow> Inl e
      | Inr ps \<Rightarrow> Inr (b\<lparr>b_params := ps\<rparr>))"

definition whereIn :: "PaginateBuilder \<Rightarrow> string \<Rightarrow> jsval list \<Rightarrow> error + PaginateBuilder" where
  "whereIn b field vals = stage_multi ''in'' b field vals"

definition whereNotIn :: "PaginateBuilder \<Rightarrow> string \<Rightarrow> jsval list \<Rightarrow> error + PaginateBuilder" where
  "whereNotIn b field vals = stage_multi ''notin'' b field vals"

text \<open>\<^verbatim>\<open>this.params.k = [...(this.params.k || []), ...fields]\<close>\<close>

definition stage_fields :: "string \<Rightarrow> PaginateBuilder \<Rightarrow> string list \<Rightarrow> error + PaginateBuilder" where
  "stage_fields k b names =
     (case spread_existing (get_prop (b_params b) k) of
        Inl e \<Rightarrow> Inl e
      | Inr xs \<Rightarrow> Inr (b\<lparr>b_params := set_prop (b_params b) k (Arr (xs @ map Str names))\<rparr>))"

definition isNull :: "PaginateBuilder \<Rightarrow> string list \<Rightarrow> error + PaginateBuilder" where
  "isNull b names = stage_fields ''isnull'' b names"

definition isNotNull :: "PaginateBuilder \<Rightarrow> string list \<Rightarrow> error + PaginateBuilder" where
  "isNotNull b names = stage_fields ''isnotnull'' b names"

text \<open>
  \<^verbatim>\<open>filter(field, operator, value)\<close>: the \<^verbatim>\<open>switch\<close> on the operator name, with its
  \<^verbatim>\<open>default\<close> branch.
\<close>

definition builder_filter ::
  "PaginateBuilder \<Rightarrow> string \<Rightarrow> string \<Rightarrow> jsval \<Rightarrow> error + PaginateBuilder" where
  "builder_filter b field operator val =
     (if operator = ''like'' then like b field val
      else if operator = ''eq'' then equals b field val
      else if operator = ''gte'' then greaterThanOrEqual b field val
      else if operator = ''gt'' then greaterThan b field val
      else if operator = ''lte'' then lessThanOrEqual b field val
      else if operator = ''lt'' then lessThan b field val
      else if operator = ''in'' then whereIn b field (case val of Arr xs \<Rightarrow> xs | _ \<Rightarrow> [val])
      else if operator = ''notin'' then whereNotIn b field (case val of Arr xs \<Rightarrow> xs | _ \<Rightarrow> [val])
      else if operator = ''isnull'' then isNull b [field]
      else if operator = ''isnotnull'' then isNotNull b [field]
      else Inl (Error (''Unsupported filter operator: '' @ operator)))"

text \<open>The operator names of the type \<^verbatim>\<open>FilterOperator\<close> (\<^verbatim>\<open>types.ts\<close>).\<close>

definition FilterOperator :: "string list" where
  "FilterOperator =
     [''like'', ''likeor'', ''likeand'', ''eq'', ''eqor'', ''eqand'', ''gte'', ''gt'', ''lte'',
      ''lt'', ''in'', ''notin'', ''between'', ''isnull'', ''isnotnull'']"

section \<open>Predicates used to state the properties\<close>




text \<open>
  A key with both brackets that none of the four tests of the decoder recognizes: the
  three patterns and the test for a trailing \<^verbatim>\<open>[]\<close>.
\<close>

definition unrecognized_brackets :: "string \<Rightarrow> bool" where
  "unrecognized_brackets key =
     (CHR ''['' \<in> set key \<and> CHR '']'' \<in> set key \<and> indexMatch key = None
      \<and> nestedArrayMatch key = None \<and> nestedObjectMatch key = None \<and> \<not> endsWith key ''[]'')"
















section \<open>Properties of the encoder\<close>

lemma formatArrayValue_empty:
  "formatArrayValue k [] options =
     (if arrayFormat options = Some Comma \<or> arrayFormat options = Some Separator
      then [encodeValue (Str k) (encodeValues options) @ ''='']
      else [])"
proof (cases "arrayFormat options")
  case None
  then show ?thesis by (simp add: formatArrayValue_def)
next
  case (Some a)
  then show ?thesis by (cases a) (simp_all add: formatArrayValue_def)
qed



text \<open>
  Claim C6. For a key \<open>k\<close> and a sequence \<open>vs\<close>: under \<^verbatim>\<open>repeat\<close> the encoder emits
  one token \<^verbatim>\<open>k=v\<close> per element, the key repeated, in element order; under \<^verbatim>\<open>comma\<close>
  it emits the single token \<^verbatim>\<open>k=v0,v1,...,vn\<close>, joined by a literal comma whatever
  \<^verbatim>\<open>arraySeparator\<close> is (keys and values rendered by \<open>encodeValue\<close>). In particular
  \<^verbatim>\<open>{sort:["name","age"]}\<close> under \<^verbatim>\<open>comma\<close> encodes to \<^verbatim>\<open>sort=name,age\<close>.
\<close>

theorem formatArrayValue_repeat_comma:
  "(arrayFormat options = Some Repeat \<longrightarrow>
      formatArrayValue k vs options =
        map (\<lambda>v. encodeValue (Str k) (encodeValues options) @ ''=''
                   @ encodeValue v (encodeValues options)) vs)
   \<and> (arrayFormat options = Some Comma \<longrightarrow>
      formatArrayValue k vs options =
        [encodeValue (Str k) (encodeValues options) @ ''=''
           @ join '','' (map (\<lambda>v. encodeValue v (encodeValues options)) vs)]
      \<and> formatArrayValue k vs (options\<lparr>arraySeparator := sep\<rparr>) = formatArrayValue k vs options)
   \<and> toQueryString [(''sort'', Arr [Str ''name'', Str ''age''])]
        (no_options\<lparr>p_arrayFormat := Some (Some Comma)\<rparr>) = Inr ''sort=name,age''"
  by (simp add: formatArrayValue_def toQueryString_def validatePaginationParams_def
      check_positive_integer_def buildQueryString_def objectToQueryParams_def entry_params_def
      shouldSkipValue_def camelToSnakeCase_def spread_options_def spread_field_def
      DEFAULT_OPTIONS_def no_options_def encodeValue_def
      encodeURIComponent_def percent_encode_char_def unreserved_def)

theorem formatArrayValue_repeat_comma_witness:
  "formatArrayValue ''sort'' [Str ''name'', Str ''-created_at''] DEFAULT_OPTIONS
     = [''sort=name'', ''sort=-created_at'']
   \<and> formatArrayValue ''sort'' [Str ''name'', Str ''age'']
       (DEFAULT_OPTIONS\<lparr>arrayFormat := Some Comma, arraySeparator := Some ''|''\<rparr>)
     = [''sort=name,age'']"
  using formatArrayValue_repeat_comma [of DEFAULT_OPTIONS "''sort''"
        "[Str ''name'', Str ''-created_at'']"]
    formatArrayValue_repeat_comma
      [of "DEFAULT_OPTIONS\<lparr>arrayFormat := Some Comma, arraySeparator := Some ''|''\<rparr>"
        "''sort''" "[Str ''name'', Str ''age'']"]
  by (simp add: DEFAULT_OPTIONS_def encodeValue_def
      encodeURIComponent_def percent_encode_char_def unreserved_def)



text \<open>
  Claim C10. A top-level entry whose value is an empty sequence yields no token under
  any options, so the model encodes as if the entry were absent. A field of a nested
  object whose value is an empty sequence yields no token under \<^verbatim>\<open>repeat\<close>,
  \<^verbatim>\<open>brackets\<close> and \<^verbatim>\<open>indices\<close> (and an undefined format), and exactly one token,
  the composite key with an empty value, under \<^verbatim>\<open>comma\<close> and \<^verbatim>\<open>separator\<close>:
  \<^verbatim>\<open>{like:{field:[]}}\<close> gives \<^verbatim>\<open>like[field]=\<close>.
\<close>

theorem empty_sequence_tokens:
  "entry_params options (key, Arr []) = []
   \<and> objectToQueryParams (before @ (key, Arr []) # after) options
       = objectToQueryParams (before @ after) options
   \<and> nested_params options queryKey (field, Arr []) =
       (if arrayFormat options = Some Comma \<or> arrayFormat options = Some Separator
        then [encodeValue (Str (queryKey @ ''['' @ field @ '']'')) (encodeValues options) @ ''='']
        else [])
   \<and> entry_params options (key, Obj [(field, Arr [])]) =
       (if arrayFormat options = Some Comma \<or> arrayFormat options = Some Separator
        then [encodeValue (Str (camelToSnakeCase key @ ''['' @ field @ '']''))
                (encodeValues options) @ ''='']
        else [])
   \<and> toQueryString [(''like'', Obj [(''field'', Arr [])])]
        (no_options\<lparr>p_arrayFormat := Some (Some Comma), p_encodeValues := Some (Some False)\<rparr>)
       = Inr ''like[field]=''
   \<and> toQueryString [(''like'', Obj [(''field'', Arr [])])] no_options = Inr []"
proof -
  have top: "entry_params options (key, Arr []) = []"
    by (simp add: entry_params_def)
  have nested: "nested_params options qk (field, Arr []) =
       (if arrayFormat options = Some Comma \<or> arrayFormat options = Some Separator
        then [encodeValue (Str (qk @ ''['' @ field @ '']'')) (encodeValues options) @ ''='']
        else [])" for qk
    by (simp add: nested_params_def shouldSkipValue_def formatArrayValue_empty)
  have obj: "entry_params options (key, Obj [(field, Arr [])]) =
      nested_params options (camelToSnakeCase key) (field, Arr [])"
    by (simp add: entry_params_def shouldSkipValue_def)
  have ex1: "toQueryString [(''like'', Obj [(''field'', Arr [])])]
        (no_options\<lparr>p_arrayFormat := Some (Some Comma), p_encodeValues := Some (Some False)\<rparr>)
       = Inr ''like[field]=''"
    by (simp add: formatArrayValue_def toQueryString_def validatePaginationParams_def
      check_positive_integer_def buildQueryString_def objectToQueryParams_def entry_params_def
      nested_params_def
      shouldSkipValue_def camelToSnakeCase_def spread_options_def spread_field_def
      DEFAULT_OPTIONS_def no_options_def encodeValue_def)
  have ex2: "toQueryString [(''like'', Obj [(''field'', Arr [])])] no_options = Inr []"
    by (simp add: formatArrayValue_def toQueryString_def validatePaginationParams_def
      check_positive_integer_def buildQueryString_def objectToQueryParams_def entry_params_def
      nested_params_def
      shouldSkipValue_def camelToSnakeCase_def spread_options_def spread_field_def
      DEFAULT_OPTIONS_def no_options_def encodeValue_def)
  show ?thesis
    using top nested obj ex1 ex2 by (simp add: objectToQueryParams_def)
qed

section \<open>Properties of the validation\<close>









section \<open>Properties of the builder\<close>

text \<open>
  Claim C7. The type \<^verbatim>\<open>FilterOperator\<close> declares fifteen operator names, and
  \<^verbatim>\<open>filter\<close> takes an operator of that type, but its \<^verbatim>\<open>switch\<close> has no case for
  \<^verbatim>\<open>likeor\<close>, \<^verbatim>\<open>likeand\<close>, \<^verbatim>\<open>eqor\<close>, \<^verbatim>\<open>eqand\<close> and \<^verbatim>\<open>between\<close>: on these
  five it raises \<^verbatim>\<open>Unsupported filter operator\<close>, whatever the builder, the field and
  the value are.
\<close>

theorem filter_unsupported_declared_operators:
  "builder_filter b field ''likeor'' val = Inl (Error ''Unsupported filter operator: likeor'')
   \<and> builder_filter b field ''likeand'' val = Inl (Error ''Unsupported filter operator: likeand'')
   \<and> builder_filter b field ''eqor'' val = Inl (Error ''Unsupported filter operator: eqor'')
   \<and> builder_filter b field ''eqand'' val = Inl (Error ''Unsupported filter operator: eqand'')
   \<and> builder_filter b field ''between'' val = Inl (Error ''Unsupported filter operator: between'')
   \<and> set [''likeor'', ''likeand'', ''eqor'', ''eqand'', ''between''] \<subseteq> set FilterOperator"
  by (simp add: builder_filter_def FilterOperator_def)

section \<open>Properties of the decoder\<close>

subsection \<open>Properties and keys\<close>










lemma is_digit_bracket [simp]: "\<not> is_digit CHR '']''"
  by (simp add: is_digit_def)


lemma bracket_mem: "CHR ''['' \<in> set (base @ ''['' @ idx @ '']'') \<and> CHR '']'' \<in> set (base @ ''['' @ idx @ '']'')"
  by simp








lemma decode_entries_append:
  "decode_entries params (xs @ ys) =
     (case decode_entries params xs of Inl e \<Rightarrow> Inl e | Inr params' \<Rightarrow> decode_entries params' ys)"
  by (induction xs arbitrary: params) (auto split: sum.splits)










subsection \<open>Indexed pairs\<close>




subsection \<open>Keys of no recognized shape\<close>

text \<open>
  Claim C9. A pair whose key contains both brackets and passes none of the four tests
  of the decoder (the patterns \<^verbatim>\<open>base[digits]\<close>, \<^verbatim>\<open>base[field][]\<close>, \<^verbatim>\<open>base[field]\<close>
  and a trailing \<^verbatim>\<open>[]\<close>), such as \<^verbatim>\<open>a[b][c]\<close>, leaves the model unchanged and
  raises nothing: the outcome of the whole decode, model or error, is that of the query
  string without the pair.
\<close>

theorem unrecognized_pair_discarded:
  assumes "unrecognized_brackets key"
  shows "decode_entry params (key, v) = Inr params
         \<and> from_entries (before @ (key, v) # after) = from_entries (before @ after)"
proof -
  have step: "decode_entry ps (key, v) = Inr ps" for ps
    using assms by (simp add: unrecognized_brackets_def decode_entry_def)
  have "decode_entries [] (before @ (key, v) # after) = decode_entries [] (before @ after)"
    by (simp add: decode_entries_append step split: sum.splits)
  then show ?thesis
    using step by (simp add: from_entries_def)
qed

theorem unrecognized_pair_discarded_witness:
  "unrecognized_brackets ''a[b][c]''
   \<and> fromQueryString ''a[b][c]=v&page=2'' = Inr [(''page'', Num (Integer 2))]"
proof -
  have u: "unrecognized_brackets ''a[b][c]''" by code_simp
  have e: "urlSearchParams ''a[b][c]=v&page=2'' = [] @ (''a[b][c]'', ''v'') # [(''page'', ''2'')]"
    by code_simp
  have r: "from_entries ([] @ [(''page'', ''2'')]) = Inr [(''page'', Num (Integer 2))]"
    by code_simp
  show ?thesis
    using unrecognized_pair_discarded [OF u, of "[]" "''v''" "[]" "[(''page'', ''2'')]"] u e r
    by (simp only: fromQueryString_def simp_thms)
qed

subsection \<open>\<^verbatim>\<open>page\<close> and \<^verbatim>\<open>limit\<close>\<close>




section \<open>The round trip\<close>

subsection \<open>Percent-encoding and the parser of query strings\<close>





lemma of_char_less: "(of_char c :: nat) < 256"
  by simp

















subsection \<open>The tokens of a model under the default options\<close>








subsection \<open>Numerals, properties and flattened keys\<close>
























subsection \<open>Decoding the pairs of a nested object\<close>











subsection \<open>Decoding the pairs of a model\<close>






lemma ToString_Bool: "(ToString (Bool b) = ''true'') = b"
  by (cases b) simp_all












end
